theory Spec2Isabelle
  imports Main "HOL-Library.Sublist"
begin

section \<open>Vindex interfaces and the vindex registry (go/vt/vtgate/planbuilder/vindex.go)\<close>

subsection \<open>Go types, method signatures and interface declarations\<close>

text \<open>
  The Go types that occur in the method signatures of the file. \<open>TEmptyInterface\<close> is
  \<^verbatim>\<open>interface{}\<close>; \<open>TNamed\<close> is a declared type referred to by name (\<^verbatim>\<open>VCursor\<close>).
\<close>

datatype gotype =
    TString
  | TInt
  | TBool
  | TByte
  | TError
  | TEmptyInterface
  | TSlice gotype
  | TNamed string

text \<open>
  A signature is the list of parameter types and the list of result types; parameter
  names are not part of a Go signature.
\<close>

type_synonym signature = "gotype list \<times> gotype list"

type_synonym method_spec = "string \<times> signature"

text \<open>
  An interface declaration lists method specifications and embedded interfaces
  (\<^verbatim>\<open>type Functional interface { Unique }\<close>). An embedded interface is given by its own
  element list.
\<close>

datatype iface_elem =
    Method string signature
  | Embed "iface_elem list"

type_synonym interface = "iface_elem list"

fun elem_methods :: "iface_elem \<Rightarrow> method_spec list" where
  "elem_methods (Method n s) = [(n, s)]"
| "elem_methods (Embed es) = concat (map elem_methods es)"

definition method_set :: "interface \<Rightarrow> method_spec list" where
  "method_set I = concat (map elem_methods I)"

definition VCursorT :: gotype where
  "VCursorT = TNamed ''VCursor''"

text \<open>
  \<^verbatim>\<open>
  type Vindex interface {
      String() string
      Cost() int
      Verify(cursor VCursor, id interface{}, ks []byte) (bool, error)
  }
  \<close>
\<close>

definition Vindex :: interface where
  "Vindex =
     [Method ''String'' ([], [TString]),
      Method ''Cost'' ([], [TInt]),
      Method ''Verify'' ([VCursorT, TEmptyInterface, TSlice TByte], [TBool, TError])]"

text \<open>\<^verbatim>\<open>Map(cursor VCursor, ids []interface{}) ([][]byte, error)\<close>\<close>

definition Unique :: interface where
  "Unique =
     [Method ''Map'' ([VCursorT, TSlice TEmptyInterface], [TSlice (TSlice TByte), TError])]"

text \<open>\<^verbatim>\<open>Map(cursor VCursor, ids []interface{}) ([][][]byte, error)\<close>\<close>

definition NonUnique :: interface where
  "NonUnique =
     [Method ''Map''
        ([VCursorT, TSlice TEmptyInterface], [TSlice (TSlice (TSlice TByte)), TError])]"

text \<open>\<^verbatim>\<open>ReverseMap(cursor VCursor, ks []byte) (interface{}, error)\<close>\<close>

definition Reversible :: interface where
  "Reversible =
     [Method ''ReverseMap'' ([VCursorT, TSlice TByte], [TEmptyInterface, TError])]"

text \<open>\<^verbatim>\<open>type Functional interface { Unique }\<close>\<close>

definition Functional :: interface where
  "Functional = [Embed Unique]"

text \<open>
  \<^verbatim>\<open>
  type Lookup interface {
      Create(VCursor, interface{}, []byte) error
      Delete(VCursor, []interface{}, []byte) error
  }
  \<close>
\<close>

definition Lookup :: interface where
  "Lookup =
     [Method ''Create'' ([VCursorT, TEmptyInterface, TSlice TByte], [TError]),
      Method ''Delete'' ([VCursorT, TSlice TEmptyInterface, TSlice TByte], [TError])]"

subsection \<open>Interface values and type assertions\<close>

text \<open>
  A concrete Go type has at most one method of a given name, so its methods form a
  partial map from method names to signatures. A type implements an interface when it
  has every method of the interface's method set, with the same signature.
\<close>

type_synonym method_table = "string \<rightharpoonup> signature"

definition implements :: "method_table \<Rightarrow> interface \<Rightarrow> bool" where
  "implements ms I = list_all (\<lambda>(n, s). ms n = Some s) (method_set I)"

text \<open>
  A value of interface type is \<^verbatim>\<open>nil\<close> or a concrete value \<open>x\<close> together with the
  method table of its dynamic type.
\<close>

datatype 'v iface_value =
    NilIface
  | Dyn method_table 'v

text \<open>
  The \<^verbatim>\<open>ok\<close> of the comma-ok type assertion \<^verbatim>\<open>_, ok := v.(I)\<close> for an interface
  type \<^verbatim>\<open>I\<close>: false on \<^verbatim>\<open>nil\<close>, otherwise whether the dynamic type implements
  \<^verbatim>\<open>I\<close>.
\<close>

fun type_assert_ok :: "'v iface_value \<Rightarrow> interface \<Rightarrow> bool" where
  "type_assert_ok NilIface I = False"
| "type_assert_ok (Dyn ms x) I = implements ms I"

text \<open>
  \<^verbatim>\<open>
  func IsUnique(v Vindex) bool {
      _, ok := v.(Unique)
      return ok
  }
  \<close>
\<close>

definition IsUnique :: "'v iface_value \<Rightarrow> bool" where
  "IsUnique v = type_assert_ok v Unique"

text \<open>The five optional capabilities, and the interface that stands for each.\<close>

datatype capability = CUnique | CNonUnique | CReversible | CFunctional | CLookup

fun capability_iface :: "capability \<Rightarrow> interface" where
  "capability_iface CUnique = Unique"
| "capability_iface CNonUnique = NonUnique"
| "capability_iface CReversible = Reversible"
| "capability_iface CFunctional = Functional"
| "capability_iface CLookup = Lookup"

definition capabilities :: "method_table \<Rightarrow> capability set" where
  "capabilities ms = {c. implements ms (capability_iface c)}"

text \<open>
  A method table for a set of capabilities: the three methods of \<open>Vindex\<close>, one
  \<^verbatim>\<open>Map\<close> method (that of \<open>Unique\<close> when asked for, else that of \<open>NonUnique\<close> when
  asked for), \<^verbatim>\<open>ReverseMap\<close>, and the two methods of \<open>Lookup\<close>.
\<close>

definition strategy_methods :: "capability set \<Rightarrow> method_table" where
  "strategy_methods S =
     map_of
       (method_set Vindex @
        (if CUnique \<in> S then method_set Unique
         else if CNonUnique \<in> S then method_set NonUnique else []) @
        (if CReversible \<in> S then method_set Reversible else []) @
        (if CLookup \<in> S then method_set Lookup else []))"

subsection \<open>Formatting, errors and panics\<close>

text \<open>
  \<^verbatim>\<open>fmt.Sprintf\<close> for the two format strings of the file: one \<^verbatim>\<open>%s\<close> verb with a
  string operand, which is written out as it is; every other character of the format is
  copied.
\<close>

fun Sprintf :: "string \<Rightarrow> string \<Rightarrow> string" where
  "Sprintf [] a = []"
| "Sprintf (c # cs) a =
     (if c = CHR ''%'' \<and> cs \<noteq> [] \<and> hd cs = CHR ''s'' then a @ tl cs
      else c # Sprintf cs a)"

text \<open>A Go \<^verbatim>\<open>error\<close> value is given by its text; \<^verbatim>\<open>nil\<close> is \<open>None\<close>.\<close>

datatype error = Error string

fun error_text :: "error \<Rightarrow> string" where
  "error_text (Error s) = s"

definition Errorf :: "string \<Rightarrow> string \<Rightarrow> error" where
  "Errorf format a = Error (Sprintf format a)"

text \<open>
  A call panics with a value or returns. \<open>Unfinished\<close> is the outcome of a call that has
  not returned within the number of steps it was given.
\<close>

datatype 'a outcome = Panic string | Return 'a | Unfinished

definition nil_func_call :: string where
  "nil_func_call = ''runtime error: invalid memory address or nil pointer dereference''"

subsection \<open>The registry\<close>

text \<open>
  \<^verbatim>\<open>type NewVindexFunc func(string, map[string]interface{}) (Vindex, error)\<close>

  A value of a Go function type is \<^verbatim>\<open>nil\<close> or a function. A constructor is code outside
  this file: given its two arguments it runs a body, and the body reaches the registry
  through the two exported functions of this file. A body
  \<^item> returns its result pair (\<open>DoReturn\<close>),
  \<^item> panics (\<open>DoPanic\<close>),
  \<^item> calls \<^verbatim>\<open>Register\<close> and goes on (\<open>DoRegister\<close>),
  \<^item> calls \<^verbatim>\<open>CreateVindex\<close> and goes on with the pair it got (\<open>DoCreateVindex\<close>),
  \<^item> runs a part under a deferred \<^verbatim>\<open>recover\<close>, going on with the panic value when that
    part panics (\<open>DoRecover\<close>).

  The parameter map is a partial map from keys to values of some type \<open>'p\<close>.
\<close>

datatype ('p, 'v) NewVindexFunc =
    NilFunc
  | GoFunc "string \<Rightarrow> (string \<rightharpoonup> 'p) \<Rightarrow> ('p, 'v) body"
and ('p, 'v) body =
    DoReturn "'v iface_value" "error option"
  | DoPanic string
  | DoRegister string "('p, 'v) NewVindexFunc" "('p, 'v) body"
  | DoCreateVindex string string "string \<rightharpoonup> 'p"
      "'v iface_value \<Rightarrow> error option \<Rightarrow> ('p, 'v) body"
  | DoRecover "('p, 'v) body" "string \<Rightarrow> ('p, 'v) body"

text \<open>\<^verbatim>\<open>var registry = make(map[string]NewVindexFunc)\<close>\<close>

type_synonym ('p, 'v) registry = "string \<rightharpoonup> ('p, 'v) NewVindexFunc"

definition registry :: "('p, 'v) registry" where
  "registry = Map.empty"

text \<open>
  \<^verbatim>\<open>
  func Register(vindexType string, newVindexFunc NewVindexFunc) {
      if _, ok := registry[vindexType]; ok {
          panic(fmt.Sprintf("%s is already registered", vindexType))
      }
      registry[vindexType] = newVindexFunc
  }
  \<close>
  The global map is passed in and returned.
\<close>

definition Register ::
  "('p, 'v) registry \<Rightarrow> string \<Rightarrow> ('p, 'v) NewVindexFunc \<Rightarrow> unit outcome \<times> ('p, 'v) registry"
where
  "Register reg vindexType newVindexFunc =
     (case reg vindexType of
        Some _ \<Rightarrow> (Panic (Sprintf ''%s is already registered'' vindexType), reg)
      | None \<Rightarrow> (Return (), reg(vindexType \<mapsto> newVindexFunc)))"

text \<open>
  \<^verbatim>\<open>
  func CreateVindex(vindexType, name string, params map[string]interface{}) (Vindex, error) {
      f, ok := registry[vindexType]
      if !ok {
          return nil, fmt.Errorf("vindexType %s not found", vindexType)
      }
      return f(name, params)
  }
  \<close>
  Calling a \<^verbatim>\<open>nil\<close> function value panics. The call \<^verbatim>\<open>f(name, params)\<close> runs the body
  of the constructor on the registry as it is, and what the body does to the registry
  stays. A constructor can call \<^verbatim>\<open>CreateVindex\<close> again, so a call need not return: the
  first argument \<open>k\<close> bounds the number of steps of constructor bodies, and \<open>exec\<close> runs
  a body.
\<close>

function
  CreateVindex ::
    "nat \<Rightarrow> ('p, 'v) registry \<Rightarrow> string \<Rightarrow> string \<Rightarrow> (string \<rightharpoonup> 'p)
       \<Rightarrow> ('v iface_value \<times> error option) outcome \<times> ('p, 'v) registry"
and
  exec ::
    "nat \<Rightarrow> ('p, 'v) registry \<Rightarrow> ('p, 'v) body
       \<Rightarrow> ('v iface_value \<times> error option) outcome \<times> ('p, 'v) registry"
where
  "CreateVindex k reg vindexType name params =
     (case reg vindexType of
        None \<Rightarrow> (Return (NilIface, Some (Errorf ''vindexType %s not found'' vindexType)), reg)
      | Some f \<Rightarrow>
          (case f of
             NilFunc \<Rightarrow> (Panic nil_func_call, reg)
           | GoFunc g \<Rightarrow> exec k reg (g name params)))"
| "exec 0 reg b = (Unfinished, reg)"
| "exec (Suc k) reg (DoReturn v e) = (Return (v, e), reg)"
| "exec (Suc k) reg (DoPanic p) = (Panic p, reg)"
| "exec (Suc k) reg (DoRegister t f rest) =
     (case Register reg t f of
        (Return _, reg') \<Rightarrow> exec k reg' rest
      | (Panic p, reg') \<Rightarrow> (Panic p, reg')
      | (Unfinished, reg') \<Rightarrow> (Unfinished, reg'))"
| "exec (Suc k) reg (DoCreateVindex t n ps rest) =
     (case CreateVindex k reg t n ps of
        (Return (v, e), reg') \<Rightarrow> exec k reg' (rest v e)
      | (Panic p, reg') \<Rightarrow> (Panic p, reg')
      | (Unfinished, reg') \<Rightarrow> (Unfinished, reg'))"
| "exec (Suc k) reg (DoRecover b handler) =
     (case exec k reg b of
        (Panic p, reg') \<Rightarrow> exec k reg' (handler p)
      | (r, reg') \<Rightarrow> (r, reg'))"
  by pat_completeness auto
termination
  by (relation "measure (\<lambda>x. case x of Inl (k, _) \<Rightarrow> 2 * k + 1 | Inr (k, _) \<Rightarrow> 2 * k)") auto



subsection \<open>Sequences of registry operations\<close>

text \<open>
  The two operations on the registry, as calls with their arguments, made one after the
  other from outside. A call that panics or does not return ends the run, with the
  registry as it is at that moment.
\<close>

datatype ('p, 'v) call =
    CallRegister string "('p, 'v) NewVindexFunc"
  | CallCreateVindex string string "string \<rightharpoonup> 'p"

fun ignore_result :: "'a outcome \<Rightarrow> unit outcome" where
  "ignore_result (Panic p) = Panic p"
| "ignore_result (Return _) = Return ()"
| "ignore_result Unfinished = Unfinished"

fun step :: "nat \<Rightarrow> ('p, 'v) registry \<Rightarrow> ('p, 'v) call \<Rightarrow> unit outcome \<times> ('p, 'v) registry" where
  "step k reg (CallRegister t f) = Register reg t f"
| "step k reg (CallCreateVindex t n ps) =
     (case CreateVindex k reg t n ps of (r, reg') \<Rightarrow> (ignore_result r, reg'))"

fun run :: "nat \<Rightarrow> ('p, 'v) registry \<Rightarrow> ('p, 'v) call list \<Rightarrow> unit outcome \<times> ('p, 'v) registry" where
  "run k reg [] = (Return (), reg)"
| "run k reg (c # cs) =
     (case step k reg c of
        (Return _, reg') \<Rightarrow> run k reg' cs
      | (r, reg') \<Rightarrow> (r, reg'))"

section \<open>Properties\<close>

subsection \<open>Formatting\<close>

lemma Sprintf_not_found:
  "Sprintf ''vindexType %s not found'' t = ''vindexType '' @ t @ '' not found''"
  by simp


subsection \<open>What implementing each interface amounts to\<close>

lemma implements_Vindex:
  "implements ms Vindex \<longleftrightarrow>
     ms ''String'' = Some ([], [TString]) \<and>
     ms ''Cost'' = Some ([], [TInt]) \<and>
     ms ''Verify'' = Some ([VCursorT, TEmptyInterface, TSlice TByte], [TBool, TError])"
  by (simp add: implements_def method_set_def Vindex_def)

lemma implements_Unique:
  "implements ms Unique \<longleftrightarrow>
     ms ''Map'' = Some ([VCursorT, TSlice TEmptyInterface], [TSlice (TSlice TByte), TError])"
  by (simp add: implements_def method_set_def Unique_def)

lemma implements_NonUnique:
  "implements ms NonUnique \<longleftrightarrow>
     ms ''Map'' =
       Some ([VCursorT, TSlice TEmptyInterface], [TSlice (TSlice (TSlice TByte)), TError])"
  by (simp add: implements_def method_set_def NonUnique_def)

lemma implements_Reversible:
  "implements ms Reversible \<longleftrightarrow>
     ms ''ReverseMap'' = Some ([VCursorT, TSlice TByte], [TEmptyInterface, TError])"
  by (simp add: implements_def method_set_def Reversible_def)

lemma method_set_Functional: "method_set Functional = method_set Unique"
  by (simp add: method_set_def Functional_def)

lemma implements_Functional: "implements ms Functional \<longleftrightarrow> implements ms Unique"
  by (simp add: implements_def method_set_Functional)

lemma implements_Lookup:
  "implements ms Lookup \<longleftrightarrow>
     ms ''Create'' = Some ([VCursorT, TEmptyInterface, TSlice TByte], [TError]) \<and>
     ms ''Delete'' = Some ([VCursorT, TSlice TEmptyInterface, TSlice TByte], [TError])"
  by (simp add: implements_def method_set_def Lookup_def)

lemma method_set_simps:
  "method_set Vindex =
     [(''String'', ([], [TString])), (''Cost'', ([], [TInt])),
      (''Verify'', ([VCursorT, TEmptyInterface, TSlice TByte], [TBool, TError]))]"
  "method_set Unique =
     [(''Map'', ([VCursorT, TSlice TEmptyInterface], [TSlice (TSlice TByte), TError]))]"
  "method_set NonUnique =
     [(''Map'', ([VCursorT, TSlice TEmptyInterface], [TSlice (TSlice (TSlice TByte)), TError]))]"
  "method_set Reversible =
     [(''ReverseMap'', ([VCursorT, TSlice TByte], [TEmptyInterface, TError]))]"
  "method_set Lookup =
     [(''Create'', ([VCursorT, TEmptyInterface, TSlice TByte], [TError])),
      (''Delete'', ([VCursorT, TSlice TEmptyInterface, TSlice TByte], [TError]))]"
  by (simp_all add: method_set_def Vindex_def Unique_def NonUnique_def Reversible_def Lookup_def)

lemma not_Unique_and_NonUnique: "\<not> (implements ms Unique \<and> implements ms NonUnique)"
  by (simp add: implements_Unique implements_NonUnique)

lemma strategy_methods_Vindex: "implements (strategy_methods S) Vindex"
  by (simp add: implements_Vindex strategy_methods_def method_set_simps)

lemma strategy_methods_Unique:
  "implements (strategy_methods S) Unique \<longleftrightarrow> CUnique \<in> S"
  by (simp add: implements_Unique strategy_methods_def method_set_simps)

lemma strategy_methods_NonUnique:
  "implements (strategy_methods S) NonUnique \<longleftrightarrow> CNonUnique \<in> S \<and> CUnique \<notin> S"
  by (simp add: implements_NonUnique strategy_methods_def method_set_simps)

lemma strategy_methods_Reversible:
  "implements (strategy_methods S) Reversible \<longleftrightarrow> CReversible \<in> S"
  by (simp add: implements_Reversible strategy_methods_def method_set_simps)

lemma strategy_methods_Lookup:
  "implements (strategy_methods S) Lookup \<longleftrightarrow> CLookup \<in> S"
  by (simp add: implements_Lookup strategy_methods_def method_set_simps)

lemma capabilities_strategy_methods:
  assumes fu: "CFunctional \<in> S \<longleftrightarrow> CUnique \<in> S"
    and un: "\<not> (CUnique \<in> S \<and> CNonUnique \<in> S)"
  shows "capabilities (strategy_methods S) = S"
proof (rule set_eqI)
  fix c
  show "c \<in> capabilities (strategy_methods S) \<longleftrightarrow> c \<in> S"
    using fu un
    by (cases c)
      (auto simp: capabilities_def implements_Functional strategy_methods_Unique
        strategy_methods_NonUnique strategy_methods_Reversible strategy_methods_Lookup)
qed

subsection \<open>Register, CreateVindex and constructor bodies, step by step\<close>



lemma Register_keeps: "reg t = Some f \<Longrightarrow> snd (Register reg u g) t = Some f"
  by (cases "reg u") (auto simp: Register_def)

lemma Register_quiet_cases:
  "Register reg u g = (Return (), reg(u \<mapsto> g)) \<and> reg u = None \<or>
   (\<exists>p. Register reg u g = (Panic p, reg))"
  by (cases "reg u") (simp_all add: Register_def)

lemma CreateVindex_as_exec:
  "CreateVindex k reg t n ps = (r, reg') \<Longrightarrow>
     reg' = reg \<or> (\<exists>g. reg t = Some (GoFunc g) \<and> exec k reg (g n ps) = (r, reg'))"
  by (auto split: option.splits NewVindexFunc.splits)

lemma exec_keeps: "reg t = Some f \<Longrightarrow> snd (exec k reg b) t = Some f"
proof (induction k arbitrary: reg b)
  case 0
  then show ?case by simp
next
  case (Suc k)
  have create: "reg' t = Some f"
    if "CreateVindex k reg u n ps = (r, reg')" for u n ps r reg'
  proof -
    from CreateVindex_as_exec [OF that] show ?thesis
    proof
      assume "reg' = reg"
      then show ?thesis using Suc.prems by simp
    next
      assume "\<exists>g. reg u = Some (GoFunc g) \<and> exec k reg (g n ps) = (r, reg')"
      then obtain g where "exec k reg (g n ps) = (r, reg')" by blast
      then show ?thesis using Suc.IH [of reg "g n ps"] Suc.prems by simp
    qed
  qed
  show ?case
  proof (cases b)
    case (DoReturn v e)
    then show ?thesis using Suc.prems by simp
  next
    case (DoPanic p)
    then show ?thesis using Suc.prems by simp
  next
    case (DoRegister u g rest)
    from Register_quiet_cases [of reg u g] show ?thesis
    proof
      assume a: "Register reg u g = (Return (), reg(u \<mapsto> g)) \<and> reg u = None"
      then have "u \<noteq> t" using Suc.prems by auto
      then have "(reg(u \<mapsto> g)) t = Some f" using Suc.prems by simp
      then have "snd (exec k (reg(u \<mapsto> g)) rest) t = Some f"
        using Suc.IH [of "reg(u \<mapsto> g)" rest] by blast
      then show ?thesis using DoRegister a by simp
    next
      assume "\<exists>p. Register reg u g = (Panic p, reg)"
      then show ?thesis using DoRegister Suc.prems by auto
    qed
  next
    case (DoCreateVindex u n ps rest)
    obtain r reg' where c: "CreateVindex k reg u n ps = (r, reg')"
      by (cases "CreateVindex k reg u n ps")
    have keep: "reg' t = Some f" using create [OF c] .
    show ?thesis
    proof (cases r)
      case (Return ve)
      obtain v e where "ve = (v, e)" by (cases ve)
      then show ?thesis
        using DoCreateVindex c Return Suc.IH [of reg' "rest v e"] keep
        by (simp del: CreateVindex.simps)
    next
      case (Panic p)
      then show ?thesis using DoCreateVindex c keep by (simp del: CreateVindex.simps)
    next
      case Unfinished
      then show ?thesis using DoCreateVindex c keep by (simp del: CreateVindex.simps)
    qed
  next
    case (DoRecover b' h)
    obtain r reg' where c: "exec k reg b' = (r, reg')" by (cases "exec k reg b'")
    have keep: "reg' t = Some f" using Suc.IH [of reg b'] Suc.prems c by simp
    show ?thesis
    proof (cases r)
      case (Panic p)
      then show ?thesis using DoRecover c Suc.IH [of reg' "h p"] keep by simp
    next
      case (Return ve)
      then show ?thesis using DoRecover c keep by simp
    next
      case Unfinished
      then show ?thesis using DoRecover c keep by simp
    qed
  qed
qed

lemma CreateVindex_keeps: "reg t = Some f \<Longrightarrow> snd (CreateVindex k reg u n ps) t = Some f"
  using exec_keeps [of reg t f k] by (simp split: option.splits NewVindexFunc.splits)



lemma step_keeps: "reg t = Some f \<Longrightarrow> snd (step k reg c) t = Some f"
proof (cases c)
  case (CallRegister u g)
  assume "reg t = Some f"
  then have "snd (Register reg u g) t = Some f" by (rule Register_keeps)
  then show ?thesis using CallRegister by simp
next
  case (CallCreateVindex u n ps)
  assume "reg t = Some f"
  then have "snd (CreateVindex k reg u n ps) t = Some f" by (rule CreateVindex_keeps)
  then show ?thesis using CallCreateVindex by (simp add: split_def del: CreateVindex.simps)
qed

section \<open>The claims\<close>

subsection \<open>CreateVindex\<close>

text \<open>
  C1. When the type name is not in the registry, \<open>CreateVindex\<close> returns, for every
  instance name and parameter map, the \<^verbatim>\<open>nil\<close> vindex together with an error whose
  text is \<^verbatim>\<open>vindexType <name> not found\<close>: the text contains the type name and says
  "not found". No constructor runs, and the registry is returned as it was.
\<close>

theorem CreateVindex_unregistered:
  assumes "reg vindexType = None"
  shows "\<exists>e. CreateVindex k reg vindexType name params = (Return (NilIface, Some e), reg) \<and>
             error_text e = ''vindexType '' @ vindexType @ '' not found'' \<and>
             sublist vindexType (error_text e) \<and>
             suffix '' not found'' (error_text e)"
proof -
  let ?e = "Errorf ''vindexType %s not found'' vindexType"
  have msg: "error_text ?e = ''vindexType '' @ vindexType @ '' not found''"
    unfolding Errorf_def by (simp only: Sprintf_not_found error_text.simps)
  have "CreateVindex k reg vindexType name params = (Return (NilIface, Some ?e), reg)"
    using assms by simp
  moreover have "sublist vindexType (error_text ?e)"
    unfolding msg by (rule sublist_appendI)
  moreover have "suffix '' not found'' (error_text ?e)"
    unfolding msg by (simp add: suffix_def)
  ultimately show ?thesis using msg by blast
qed

theorem CreateVindex_unregistered_witness:
  "(registry :: (nat, nat) registry) ''nonexistent'' = None \<and>
   (\<exists>e. CreateVindex 0 (registry :: (nat, nat) registry) ''nonexistent'' ''idx2'' Map.empty
           = (Return (NilIface, Some e), registry) \<and>
        error_text e = ''vindexType nonexistent not found'' \<and>
        sublist ''nonexistent'' (error_text e) \<and>
        suffix '' not found'' (error_text e))"
proof -
  have h: "(registry :: (nat, nat) registry) ''nonexistent'' = None"
    by (simp add: registry_def)
  show ?thesis
    using h CreateVindex_unregistered [of registry "''nonexistent''" 0 "''idx2''" Map.empty]
    by (simp del: CreateVindex.simps)
qed

text \<open>
  C2. When the type name is registered with a constructor \<open>f\<close> (a function, not the
  \<^verbatim>\<open>nil\<close> function value), \<open>CreateVindex\<close> is the run of \<open>f\<close> on the given name and
  parameter map, with the same outcome. So when \<open>f name params\<close> returns a pair, that
  pair is returned as it is, the vindex and the error whatever they are; for a constructor
  that returns at once, one step is enough and the registry is as it was.
\<close>

theorem CreateVindex_delegates:
  assumes "reg vindexType = Some (GoFunc f)"
  shows "CreateVindex k reg vindexType name params = exec k reg (f name params) \<and>
         (\<forall>v e. f name params = DoReturn v e \<longrightarrow>
            CreateVindex (Suc k) reg vindexType name params = (Return (v, e), reg))"
  using assms by simp

theorem CreateVindex_delegates_witness:
  "CreateVindex (Suc 0)
     [''stub_hash'' \<mapsto>
        GoFunc (\<lambda>n ps. DoReturn (Dyn (strategy_methods {CUnique, CFunctional}) n) None)]
     ''stub_hash'' ''idx1'' (Map.empty :: string \<rightharpoonup> nat)
   = (Return (Dyn (strategy_methods {CUnique, CFunctional}) ''idx1'', None),
      [''stub_hash'' \<mapsto>
         GoFunc (\<lambda>n ps. DoReturn (Dyn (strategy_methods {CUnique, CFunctional}) n) None)])
   \<and>
   CreateVindex (Suc 0)
     [''lookup'' \<mapsto> GoFunc (\<lambda>n ps. case ps ''table'' of
          None \<Rightarrow> DoReturn NilIface (Some (Error ''missing table''))
        | Some (k :: nat) \<Rightarrow> DoReturn (Dyn (strategy_methods {CNonUnique, CLookup}) n) None)]
     ''lookup'' ''idx3'' Map.empty
   = (Return (NilIface, Some (Error ''missing table'')),
      [''lookup'' \<mapsto> GoFunc (\<lambda>n ps. case ps ''table'' of
          None \<Rightarrow> DoReturn NilIface (Some (Error ''missing table''))
        | Some (k :: nat) \<Rightarrow> DoReturn (Dyn (strategy_methods {CNonUnique, CLookup}) n) None)])"
  using
    CreateVindex_delegates
      [of "[''stub_hash'' \<mapsto>
             GoFunc (\<lambda>n ps. DoReturn (Dyn (strategy_methods {CUnique, CFunctional}) n) None)]"
          "''stub_hash''"
          "\<lambda>n ps. DoReturn (Dyn (strategy_methods {CUnique, CFunctional}) n) None"
          0 "''idx1''" "Map.empty :: string \<rightharpoonup> nat"]
    CreateVindex_delegates
      [of "[''lookup'' \<mapsto> GoFunc (\<lambda>n ps. case ps ''table'' of
              None \<Rightarrow> DoReturn NilIface (Some (Error ''missing table''))
            | Some (k :: nat) \<Rightarrow> DoReturn (Dyn (strategy_methods {CNonUnique, CLookup}) n) None)]"
          "''lookup''"
          "\<lambda>n ps. case ps ''table'' of
              None \<Rightarrow> DoReturn NilIface (Some (Error ''missing table''))
            | Some (k :: nat) \<Rightarrow> DoReturn (Dyn (strategy_methods {CNonUnique, CLookup}) n) None"
          0 "''idx3''" Map.empty]
  by (simp del: CreateVindex.simps)

subsection \<open>Register\<close>



text \<open>
  C10. \<open>Register\<close> with a type name that is not in the registry returns without a panic,
  and the registry afterwards maps that name to the given constructor and every other
  name to what it was mapped to before.
\<close>

theorem Register_fresh_succeeds:
  assumes "reg t = None"
  shows "Register reg t f = (Return (), reg(t \<mapsto> f)) \<and>
         (\<forall>u. snd (Register reg t f) u = (if u = t then Some f else reg u))"
  using assms by (simp add: Register_def)

theorem Register_fresh_succeeds_witness:
  "[''hash'' \<mapsto> NilFunc :: (nat, string) NewVindexFunc] ''lookup'' = None \<and>
   Register [''hash'' \<mapsto> NilFunc :: (nat, string) NewVindexFunc] ''lookup''
       (GoFunc (\<lambda>n ps. DoReturn NilIface None))
     = (Return (),
        [''hash'' \<mapsto> NilFunc, ''lookup'' \<mapsto> GoFunc (\<lambda>n ps. DoReturn NilIface None)])"
proof -
  have h: "[''hash'' \<mapsto> NilFunc :: (nat, string) NewVindexFunc] ''lookup'' = None"
    by simp
  show ?thesis
    using h Register_fresh_succeeds
      [of "[''hash'' \<mapsto> NilFunc :: (nat, string) NewVindexFunc]" "''lookup''"
        "GoFunc (\<lambda>n ps. DoReturn NilIface None)"]
    by simp
qed

subsection \<open>Capabilities\<close>

text \<open>
  C4. \<open>IsUnique v\<close> is true exactly when \<open>v\<close> holds a value whose dynamic type has the
  method \<^verbatim>\<open>Map(VCursor, []interface{}) ([][]byte, error)\<close>, that is, when the type
  assertion to \<open>Unique\<close> succeeds; it is false for every value whose dynamic type
  implements \<open>NonUnique\<close>.
\<close>

theorem IsUnique_iff:
  "(IsUnique v \<longleftrightarrow>
      (\<exists>ms x. v = Dyn ms x \<and>
         ms ''Map'' =
           Some ([VCursorT, TSlice TEmptyInterface], [TSlice (TSlice TByte), TError]))) \<and>
   (IsUnique v \<longleftrightarrow> type_assert_ok v Unique) \<and>
   (type_assert_ok v NonUnique \<longrightarrow> \<not> IsUnique v)"
proof (cases v)
  case NilIface
  then show ?thesis by (simp add: IsUnique_def)
next
  case (Dyn ms x)
  then show ?thesis
    by (simp add: IsUnique_def implements_Unique implements_NonUnique)
qed

theorem IsUnique_iff_witness:
  "IsUnique (Dyn (strategy_methods {CUnique, CFunctional}) ''unique_stub'') \<and>
   type_assert_ok (Dyn (strategy_methods {CNonUnique}) ''nonunique_stub'') NonUnique \<and>
   \<not> IsUnique (Dyn (strategy_methods {CNonUnique}) ''nonunique_stub'')"
  using
    IsUnique_iff [of "Dyn (strategy_methods {CUnique, CFunctional}) ''unique_stub''"]
    IsUnique_iff [of "Dyn (strategy_methods {CNonUnique}) ''nonunique_stub''"]
  by (simp add: strategy_methods_def method_set_simps implements_NonUnique)

text \<open>
  C5. \<open>Functional\<close> embeds \<open>Unique\<close>, so every vindex value for which the type assertion
  to \<open>Functional\<close> succeeds also passes the one to \<open>Unique\<close>, and \<open>IsUnique\<close> returns true
  for it.
\<close>

theorem Functional_is_Unique:
  assumes "type_assert_ok v Functional"
  shows "type_assert_ok v Unique \<and> IsUnique v"
  using assms by (cases v) (simp_all add: IsUnique_def implements_Functional)

theorem Functional_is_Unique_witness:
  "type_assert_ok (Dyn (strategy_methods {CUnique, CFunctional}) ''hash'') Functional \<and>
   type_assert_ok (Dyn (strategy_methods {CUnique, CFunctional}) ''hash'') Unique \<and>
   IsUnique (Dyn (strategy_methods {CUnique, CFunctional}) ''hash'')"
proof -
  have h: "type_assert_ok (Dyn (strategy_methods {CUnique, CFunctional}) ''hash'') Functional"
    by (simp add: implements_Functional strategy_methods_Unique)
  show ?thesis
    using h Functional_is_Unique [of "Dyn (strategy_methods {CUnique, CFunctional}) ''hash''"]
    by simp
qed

text \<open>
  C6, as stated: every set of capabilities that contains \<open>Unique\<close> whenever it contains
  \<open>Functional\<close> is the set of capabilities of some type that implements \<open>Vindex\<close>, and one
  type may have both \<open>Unique\<close> and \<open>NonUnique\<close>. This fails: \<open>Unique\<close> and \<open>NonUnique\<close> both
  declare a method named \<^verbatim>\<open>Map\<close>, with different result types, and a type has one method
  of a name; and \<open>Functional\<close> has the method set of \<open>Unique\<close>, so no type has \<open>Unique\<close>
  without \<open>Functional\<close>. The two sets below meet the condition of the claim (the first
  contains \<open>Unique\<close>, the second does not contain \<open>Functional\<close>) and no type has
  exactly either.
\<close>

theorem Unique_and_NonUnique_counterexample:
  "CUnique \<in> {CUnique, CNonUnique, CFunctional} \<and>
   \<not> (\<exists>ms. implements ms Vindex \<and> capabilities ms = {CUnique, CNonUnique, CFunctional}) \<and>
   \<not> (\<exists>ms. implements ms Unique \<and> implements ms NonUnique) \<and>
   CFunctional \<notin> {CUnique} \<and>
   \<not> (\<exists>ms. implements ms Vindex \<and> capabilities ms = {CUnique})"
proof -
  have both: "\<not> (\<exists>ms. implements ms Unique \<and> implements ms NonUnique)"
    using not_Unique_and_NonUnique by blast
  have "\<not> (\<exists>ms. implements ms Vindex \<and> capabilities ms = {CUnique, CNonUnique, CFunctional})"
  proof
    assume "\<exists>ms. implements ms Vindex \<and> capabilities ms = {CUnique, CNonUnique, CFunctional}"
    then obtain ms where "capabilities ms = {CUnique, CNonUnique, CFunctional}" by blast
    then have "CUnique \<in> capabilities ms" "CNonUnique \<in> capabilities ms" by simp_all
    then have "implements ms Unique \<and> implements ms NonUnique"
      by (simp add: capabilities_def)
    then show False using both by blast
  qed
  moreover have "\<not> (\<exists>ms. implements ms Vindex \<and> capabilities ms = {CUnique})"
  proof
    assume "\<exists>ms. implements ms Vindex \<and> capabilities ms = {CUnique}"
    then obtain ms where c: "capabilities ms = {CUnique}" by blast
    then have "CUnique \<in> capabilities ms" by simp
    then have "implements ms Functional"
      by (simp add: capabilities_def implements_Functional)
    then have "CFunctional \<in> capabilities ms" by (simp add: capabilities_def)
    then show False using c by simp
  qed
  ultimately show ?thesis using both by simp
qed

text \<open>
  C6, amended: a set of capabilities is the set of capabilities of some type that
  implements \<open>Vindex\<close> exactly when it contains \<open>Functional\<close> if and only if it contains
  \<open>Unique\<close>, and does not contain both \<open>Unique\<close> and \<open>NonUnique\<close>. \<open>Reversible\<close> and
  \<open>Lookup\<close> combine freely with the rest.
\<close>

theorem capability_sets:
  "(\<exists>ms. implements ms Vindex \<and> capabilities ms = S) \<longleftrightarrow>
     (CFunctional \<in> S \<longleftrightarrow> CUnique \<in> S) \<and> \<not> (CUnique \<in> S \<and> CNonUnique \<in> S)"
proof
  assume "\<exists>ms. implements ms Vindex \<and> capabilities ms = S"
  then obtain ms where S: "capabilities ms = S" by blast
  have "CFunctional \<in> capabilities ms \<longleftrightarrow> CUnique \<in> capabilities ms"
    by (simp add: capabilities_def implements_Functional)
  moreover have "\<not> (CUnique \<in> capabilities ms \<and> CNonUnique \<in> capabilities ms)"
    using not_Unique_and_NonUnique [of ms] by (simp add: capabilities_def)
  ultimately show "(CFunctional \<in> S \<longleftrightarrow> CUnique \<in> S) \<and> \<not> (CUnique \<in> S \<and> CNonUnique \<in> S)"
    unfolding S by blast
next
  assume "(CFunctional \<in> S \<longleftrightarrow> CUnique \<in> S) \<and> \<not> (CUnique \<in> S \<and> CNonUnique \<in> S)"
  then have "capabilities (strategy_methods S) = S"
    using capabilities_strategy_methods by blast
  then show "\<exists>ms. implements ms Vindex \<and> capabilities ms = S"
    using strategy_methods_Vindex by blast
qed

theorem capability_sets_witness:
  "(\<exists>ms. implements ms Vindex \<and> capabilities ms = {CUnique, CFunctional, CReversible}) \<and>
   (\<exists>ms. implements ms Vindex \<and> capabilities ms = {CNonUnique, CLookup}) \<and>
   (\<exists>ms. implements ms Vindex \<and> capabilities ms = {})"
  using capability_sets [of "{CUnique, CFunctional, CReversible}"]
    capability_sets [of "{CNonUnique, CLookup}"] capability_sets [of "{}"]
  by simp

subsection \<open>The registry over a run\<close>

text \<open>
  C7. A binding of the registry stays through every sequence of \<open>Register\<close> and
  \<open>CreateVindex\<close> calls: whatever the calls are, whatever the constructors they run do,
  and whether the run ends with a panic, with a call that does not return, or normally,
  the registry at the end maps the type name to the same constructor.
\<close>

theorem registry_monotone:
  assumes "reg t = Some f"
  shows "snd (run k reg cs) t = Some f"
  using assms
proof (induction cs arbitrary: reg)
  case Nil
  then show ?case by simp
next
  case (Cons c cs)
  obtain r reg' where st: "step k reg c = (r, reg')" by (cases "step k reg c")
  have keep: "reg' t = Some f"
    using step_keeps [of reg t f k c] Cons.prems st by simp
  show ?case
  proof (cases r)
    case (Return u)
    then show ?thesis using st Cons.IH [of reg'] keep by simp
  next
    case (Panic msg)
    then show ?thesis using st keep by simp
  next
    case Unfinished
    then show ?thesis using st keep by simp
  qed
qed

theorem registry_monotone_witness:
  "[''hash'' \<mapsto> NilFunc :: (nat, string) NewVindexFunc] ''hash'' = Some NilFunc \<and>
   snd (run (Suc (Suc (Suc 0))) [''hash'' \<mapsto> NilFunc :: (nat, string) NewVindexFunc]
          [CallRegister ''lookup''
             (GoFunc (\<lambda>n ps. DoRegister ''side'' NilFunc (DoReturn NilIface None))),
           CallCreateVindex ''nonexistent'' ''idx2'' Map.empty,
           CallCreateVindex ''lookup'' ''idx3'' Map.empty,
           CallRegister ''hash'' (GoFunc (\<lambda>n ps. DoReturn NilIface None)),
           CallRegister ''other'' NilFunc]) ''hash''
     = Some NilFunc"
proof -
  have h: "[''hash'' \<mapsto> NilFunc :: (nat, string) NewVindexFunc] ''hash'' = Some NilFunc"
    by simp
  show ?thesis
    using h registry_monotone
      [of "[''hash'' \<mapsto> NilFunc :: (nat, string) NewVindexFunc]" "''hash''" NilFunc
        "Suc (Suc (Suc 0))"
        "[CallRegister ''lookup''
            (GoFunc (\<lambda>n ps. DoRegister ''side'' NilFunc (DoReturn NilIface None))),
          CallCreateVindex ''nonexistent'' ''idx2'' Map.empty,
          CallCreateVindex ''lookup'' ''idx3'' Map.empty,
          CallRegister ''hash'' (GoFunc (\<lambda>n ps. DoReturn NilIface None)),
          CallRegister ''other'' NilFunc]"]
    by blast
qed







end
